theory Spec2Isabelle
  imports Main "HOL-Library.Word"
begin

section \<open>Common vocabulary\<close>

text \<open>
  \<^verbatim>\<open>size_t\<close> and \<^verbatim>\<open>UInt64\<close> are 64-bit unsigned integers on the platforms the server
  is built for: arithmetic wraps around, comparison is unsigned.
\<close>

type_synonym size_t = "64 word"
type_synonym UInt64 = "64 word"

text \<open>
  \<^verbatim>\<open>namespace ErrorCodes { extern const int LOGICAL_ERROR; }\<close> is the only error code
  that \<^verbatim>\<open>JoinStep.cpp\<close> names. A thrown \<^verbatim>\<open>Exception(code, message)\<close> is a value; a function
  that may throw returns \<open>Exception + 'a\<close>, with \<open>Inl\<close> for the throw.
\<close>

datatype ErrorCode = LOGICAL_ERROR

datatype Exception = Exception (code: ErrorCode) (message: string)


section \<open>\<^verbatim>\<open>src/Processors/QueryPlan/JoinStep.cpp\<close>\<close>

text \<open>
  \<^verbatim>\<open>JoinPipelineType\<close> is declared in \<^verbatim>\<open>Interpreters/IJoin.h\<close>. \<^verbatim>\<open>JoinStep.cpp\<close> names the
  enumerators \<^verbatim>\<open>YShaped\<close> and \<^verbatim>\<open>FillRightFirst\<close>; \<open>FilledRight\<close> stands for what else
  the enumeration holds. \<^verbatim>\<open>updatePipeline\<close> only asks whether the type is \<^verbatim>\<open>YShaped\<close>.
\<close>

datatype JoinPipelineType = FillRightFirst | FilledRight | YShaped

text \<open>
  The join object behind \<^verbatim>\<open>JoinPtr\<close>, as far as \<^verbatim>\<open>updatePipeline\<close> asks it:
  \<^verbatim>\<open>join->pipelineType()\<close>. The object is also passed on to the builders.
\<close>

record IJoin =
  pipelineType :: JoinPipelineType

text \<open>
  The members of \<^verbatim>\<open>JoinStep\<close> that the constructor initialises and \<^verbatim>\<open>updatePipeline\<close>
  reads. \<open>output_stream_header\<close> is \<^verbatim>\<open>output_stream->header\<close>; the constructor sets
  \<^verbatim>\<open>output_stream\<close> through \<^verbatim>\<open>updateInputStreams\<close>. The header type is a parameter.
\<close>

record 'h JoinStep =
  join :: IJoin
  max_block_size :: size_t
  max_streams :: size_t
  keep_left_read_in_order :: bool
  shuffle_optimize_buckets :: size_t
  shuffle_optimize_max :: size_t
  output_stream_header :: 'h

text \<open>
  The builders of \<^verbatim>\<open>QueryPipelineBuilder\<close> (declared in
  \<^verbatim>\<open>QueryPipeline/QueryPipelineBuilder.h\<close>) are kept as the calls \<^verbatim>\<open>updatePipeline\<close> makes,
  with their arguments in the order of the source; \<open>resize p n\<close> is \<^verbatim>\<open>p->resize(n)\<close>.
  The input pipelines have the type \<open>'p\<close>. The out-parameter \<^verbatim>\<open>&processors\<close> is left out.
\<close>

datatype ('p, 'h) QueryPipelineBuilder =
    joinPipelinesYShapedWithShuffle 'p 'p IJoin 'h size_t
  | joinPipelinesYShaped 'p 'p IJoin 'h size_t
  | joinPipelinesRightLeft 'p 'p IJoin 'h size_t size_t bool
  | resize "('p, 'h) QueryPipelineBuilder" size_t

text \<open>
  \<^verbatim>\<open>QueryPipelineBuilderPtr JoinStep::updatePipeline(QueryPipelineBuilders pipelines, ...)\<close>.
  In the shuffle branch \<^verbatim>\<open>resize(max_streams)\<close> is called inside the branch and once more
  after it. \<^verbatim>\<open>pipelines[0]\<close> and \<^verbatim>\<open>pipelines[1]\<close> are read only after the size check.
\<close>

definition updatePipeline ::
  "'h JoinStep \<Rightarrow> 'p list \<Rightarrow> Exception + ('p, 'h) QueryPipelineBuilder" where
  "updatePipeline step pipelines =
    (if length pipelines \<noteq> 2 then
       Inl (Exception LOGICAL_ERROR ''JoinStep expect two input steps'')
     else if pipelineType (join step) = YShaped then
       (if shuffle_optimize_buckets step > 1 then
          (if shuffle_optimize_max step < shuffle_optimize_buckets step - 1 then
             Inl (Exception LOGICAL_ERROR
                    ''Max key value must be at least number of shuffle buckets - 1'')
           else
             Inr (resize
                    (resize
                       (joinPipelinesYShapedWithShuffle (pipelines ! 0) (pipelines ! 1)
                          (join step) (output_stream_header step) (max_block_size step))
                       (max_streams step))
                    (max_streams step)))
        else
          Inr (resize
                 (joinPipelinesYShaped (pipelines ! 0) (pipelines ! 1)
                    (join step) (output_stream_header step) (max_block_size step))
                 (max_streams step)))
     else
       Inr (joinPipelinesRightLeft (pipelines ! 0) (pipelines ! 1)
              (join step) (output_stream_header step) (max_block_size step)
              (max_streams step) (keep_left_read_in_order step)))"

text \<open>The builder call at the bottom of a pipeline, under its \<open>resize\<close> calls.\<close>

fun built_by_shuffle :: "('p, 'h) QueryPipelineBuilder \<Rightarrow> bool" where
  "built_by_shuffle (joinPipelinesYShapedWithShuffle l r j h n) = True"
| "built_by_shuffle (joinPipelinesYShaped l r j h n) = False"
| "built_by_shuffle (joinPipelinesRightLeft l r j h n m k) = False"
| "built_by_shuffle (resize p n) = built_by_shuffle p"

text \<open>A step and a join to evaluate \<open>updatePipeline\<close> on.\<close>

definition yshaped_join :: IJoin where
  "yshaped_join = \<lparr>pipelineType = YShaped\<rparr>"

definition shuffle_step :: "size_t \<Rightarrow> size_t \<Rightarrow> unit JoinStep" where
  "shuffle_step buckets mx =
    \<lparr>join = yshaped_join, max_block_size = 65536, max_streams = 8,
     keep_left_read_in_order = False, shuffle_optimize_buckets = buckets,
     shuffle_optimize_max = mx, output_stream_header = ()\<rparr>"


section \<open>\<^verbatim>\<open>src/Server/TCPHandler.h\<close>\<close>

subsection \<open>Types declared outside the header\<close>

text \<open>
  Modelled from the spec: \<^verbatim>\<open>Protocol::Compression\<close> is declared in \<^verbatim>\<open>Core/Protocol.h\<close>, outside
  the header, which names its enumerator \<^verbatim>\<open>Disable\<close>. "Negotiated parameters at handshake:
  [...] compression enable/disable".
\<close>

datatype Compression = Disable | Enable

text \<open>
  Modelled from the spec: \<^verbatim>\<open>QueryProcessingStage::Enum\<close> is declared in
  \<^verbatim>\<open>Core/QueryProcessingStage.h\<close>, outside the header, which names its enumerator
  \<^verbatim>\<open>Complete\<close>. "processing stage requested by client (values ranging from "just parse" to
  "run to completion")"; \<open>EarlierStage n\<close> stands for the stages before completion.
\<close>

datatype QueryProcessingStage = EarlierStage nat | Complete

text \<open>
  Modelled from the spec: \<^verbatim>\<open>Progress\<close> is declared in \<^verbatim>\<open>IO/Progress.h\<close>, outside the header.
  "ProgressCounter: accumulates rows/bytes/elapsed-time deltas since the query started,
  reset to zero at query start". The counters are numbers; addition is piecewise.
\<close>

record Progress =
  rows :: nat
  bytes :: nat
  elapsed_ns :: nat

definition Progress_zero :: Progress where
  "Progress_zero = \<lparr>rows = 0, bytes = 0, elapsed_ns = 0\<rparr>"

definition Progress_add :: "Progress \<Rightarrow> Progress \<Rightarrow> Progress" where
  "Progress_add a b =
    \<lparr>rows = rows a + rows b, bytes = bytes a + bytes b,
     elapsed_ns = elapsed_ns a + elapsed_ns b\<rparr>"

text \<open>
  A smart pointer (\<^verbatim>\<open>std::shared_ptr\<close>, \<^verbatim>\<open>std::unique_ptr\<close>) to an object of a class declared
  outside the header is \<open>None\<close> when null and \<open>Some h\<close> when it holds the object \<open>h\<close>.
\<close>

type_synonym handle = nat
type_synonym pointer = "handle option"

text \<open>
  \<^verbatim>\<open>Block\<close>, \<^verbatim>\<open>BlockIO\<close> and \<^verbatim>\<open>Stopwatch\<close> are classes declared outside the header and held
  by value. Their types are parameters, and so is what their default constructors give.
\<close>

record ('block, 'io, 'watch) default_members =
  Block_default :: 'block
  BlockIO_default :: 'io
  Stopwatch_default :: 'watch


subsection \<open>\<^verbatim>\<open>struct QueryState\<close>\<close>

text \<open>
  \<^verbatim>\<open>enum class CancellationStatus: UInt8 { FULLY_CANCELLED, READ_CANCELLED, NOT_CANCELLED }\<close>:
  the enumerators have the values 0, 1 and 2 in the order of the declaration.
\<close>

datatype CancellationStatus = FULLY_CANCELLED | READ_CANCELLED | NOT_CANCELLED

fun CancellationStatus_value :: "CancellationStatus \<Rightarrow> nat" where
  "CancellationStatus_value FULLY_CANCELLED = 0"
| "CancellationStatus_value READ_CANCELLED = 1"
| "CancellationStatus_value NOT_CANCELLED = 2"

text \<open>
  The data members of \<^verbatim>\<open>QueryState\<close>, in the order of the declaration. The UUIDs of
  \<^verbatim>\<open>part_uuids_to_ignore\<close> are numbers.
\<close>

record ('block, 'io, 'watch) QueryState =
  query_id :: string
  stage :: QueryProcessingStage
  compression :: Compression
  logs_queue :: pointer
  logs_block_out :: pointer
  profile_queue :: pointer
  profile_events_block_out :: pointer
  maybe_compressed_in :: pointer
  block_in :: pointer
  maybe_compressed_out :: pointer
  block_out :: pointer
  block_for_insert :: 'block
  query :: string
  parsed_query :: pointer
  io :: 'io
  cancellation_status :: CancellationStatus
  is_connection_closed :: bool
  is_empty :: bool
  sent_all_data :: bool
  need_receive_data_for_insert :: bool
  read_all_data :: bool
  part_uuids_to_ignore :: "nat list option"
  need_receive_data_for_input :: bool
  block_for_input :: 'block
  input_header :: 'block
  skipping_data :: bool
  progress :: Progress
  watch :: 'watch
  prev_elapsed_ns :: UInt64
  timeout_setter :: pointer

text \<open>
  \<^verbatim>\<open>QueryState()\<close>: every member takes its default member initialiser, or, where the
  declaration gives none, the value of its type's default constructor (an empty string,
  a null pointer, an empty \<^verbatim>\<open>std::optional\<close>, a zero \<^verbatim>\<open>Progress\<close>).
\<close>

definition QueryState_ctor ::
  "('block, 'io, 'watch) default_members \<Rightarrow> ('block, 'io, 'watch) QueryState" where
  "QueryState_ctor env =
    \<lparr>query_id = '''',
     stage = Complete,
     compression = Disable,
     logs_queue = None,
     logs_block_out = None,
     profile_queue = None,
     profile_events_block_out = None,
     maybe_compressed_in = None,
     block_in = None,
     maybe_compressed_out = None,
     block_out = None,
     block_for_insert = Block_default env,
     query = '''',
     parsed_query = None,
     io = BlockIO_default env,
     cancellation_status = NOT_CANCELLED,
     is_connection_closed = False,
     is_empty = True,
     sent_all_data = False,
     need_receive_data_for_insert = False,
     read_all_data = False,
     part_uuids_to_ignore = None,
     need_receive_data_for_input = False,
     block_for_input = Block_default env,
     input_header = Block_default env,
     skipping_data = False,
     progress = Progress_zero,
     watch = Stopwatch_default env,
     prev_elapsed_ns = 0,
     timeout_setter = None\<rparr>"

text \<open>\<^verbatim>\<open>void reset() { *this = QueryState(); }\<close>\<close>

definition reset ::
  "('block, 'io, 'watch) default_members \<Rightarrow> ('block, 'io, 'watch) QueryState
     \<Rightarrow> ('block, 'io, 'watch) QueryState" where
  "reset env this = QueryState_ctor env"

text \<open>\<^verbatim>\<open>bool empty() const { return is_empty; }\<close>\<close>

definition QueryState_empty :: "('block, 'io, 'watch) QueryState \<Rightarrow> bool" where
  "QueryState_empty this = is_empty this"

text \<open>
  A query state in the middle of an INSERT, after a first cancel, to evaluate the
  operations on.
\<close>

definition unit_members :: "(unit, unit, unit) default_members" where
  "unit_members = \<lparr>Block_default = (), BlockIO_default = (), Stopwatch_default = ()\<rparr>"

definition mid_insert :: "(unit, unit, unit) QueryState" where
  "mid_insert =
    (QueryState_ctor unit_members)
      \<lparr>query_id := ''q-17'',
       compression := Enable,
       block_in := Some 3,
       maybe_compressed_in := Some 4,
       query := ''INSERT INTO t VALUES'',
       parsed_query := Some 5,
       cancellation_status := READ_CANCELLED,
       is_empty := False,
       need_receive_data_for_insert := True,
       skipping_data := True,
       progress := \<lparr>rows = 10, bytes = 80, elapsed_ns = 1000\<rparr>,
       prev_elapsed_ns := 900\<rparr>"


subsection \<open>Operations of \<^verbatim>\<open>TCPHandler\<close> on the query state\<close>

text \<open>
  Modelled from the spec: \<^verbatim>\<open>void decreaseCancellationStatus(const std::string & log_message)\<close>
  is declared in the header and defined outside it. "CancellationStatus: monotonically
  "increases" in strictness: NOT_CANCELLED -> READ_CANCELLED (stop providing more input
  data, finish output) -> FULLY_CANCELLED (abort output too)"; "Receiving a cancel packet
  from the client sets CancellationStatus to READ_CANCELLED first [...] then, on a second
  such signal or on hitting a configured grace deadline, escalates to FULLY_CANCELLED".
  Each call moves the status one enumerator down, and \<^verbatim>\<open>FULLY_CANCELLED\<close> stays. The
  message goes to the log only.
\<close>

fun decreased :: "CancellationStatus \<Rightarrow> CancellationStatus" where
  "decreased NOT_CANCELLED = READ_CANCELLED"
| "decreased READ_CANCELLED = FULLY_CANCELLED"
| "decreased FULLY_CANCELLED = FULLY_CANCELLED"

definition decreaseCancellationStatus ::
  "string \<Rightarrow> ('block, 'io, 'watch) QueryState \<Rightarrow> ('block, 'io, 'watch) QueryState" where
  "decreaseCancellationStatus log_message state =
    state\<lparr>cancellation_status := decreased (cancellation_status state)\<rparr>"

text \<open>
  Modelled from the spec: \<^verbatim>\<open>void updateProgress(const Progress & value)\<close> and
  \<^verbatim>\<open>void sendProgress()\<close> are declared in the header and defined outside it.
  "ProgressCounter: accumulates rows/bytes/elapsed-time deltas since the query started,
  reset to zero at query start; sent deltas since the previous send, not cumulative
  totals, on each flush". The header's comment on \<^verbatim>\<open>QueryState::progress\<close> says the same:
  "To output progress, the difference after the previous sending of progress."
  \<open>updateProgress\<close> adds a value to the counter; \<open>sendProgress\<close> gives the Progress
  packet it writes, the counter as it stands, and leaves the counter at zero.
\<close>

definition updateProgress ::
  "Progress \<Rightarrow> ('block, 'io, 'watch) QueryState \<Rightarrow> ('block, 'io, 'watch) QueryState" where
  "updateProgress value state = state\<lparr>progress := Progress_add (progress state) value\<rparr>"

definition sendProgress ::
  "('block, 'io, 'watch) QueryState \<Rightarrow> Progress \<times> ('block, 'io, 'watch) QueryState" where
  "sendProgress state = (progress state, state\<lparr>progress := Progress_zero\<rparr>)"

text \<open>
  Modelled from the spec: the loop that calls these operations (\<^verbatim>\<open>runImpl\<close> and the functions it
  calls) is defined outside the header. What reaches the operations while one query runs
  (sections 4.2 and 5 of the spec): a cancel packet of the client or the grace deadline, a
  progress callback of the pipeline, and a progress flush of the controller.
  \<open>handle_event\<close> gives the Progress packets written and the next state; \<open>run_query\<close>
  handles the events in order.
\<close>

datatype query_event =
    CancelRequested string
  | ProgressCallback Progress
  | ProgressFlush

fun handle_event ::
  "query_event \<Rightarrow> ('block, 'io, 'watch) QueryState
     \<Rightarrow> Progress list \<times> ('block, 'io, 'watch) QueryState" where
  "handle_event (CancelRequested log_message) state =
     ([], decreaseCancellationStatus log_message state)"
| "handle_event (ProgressCallback value) state = ([], updateProgress value state)"
| "handle_event ProgressFlush state =
     (case sendProgress state of (packet, state') \<Rightarrow> ([packet], state'))"

fun run_query ::
  "query_event list \<Rightarrow> ('block, 'io, 'watch) QueryState
     \<Rightarrow> Progress list \<times> ('block, 'io, 'watch) QueryState" where
  "run_query [] state = ([], state)"
| "run_query (e # es) state =
     (case handle_event e state of
        (sent, state') \<Rightarrow>
          (case run_query es state' of (sent', state'') \<Rightarrow> (sent @ sent', state'')))"


section \<open>Properties of \<^verbatim>\<open>JoinStep::updatePipeline\<close>\<close>

lemma updatePipeline_wrong_size:
  "length pipelines \<noteq> 2 \<Longrightarrow>
   updatePipeline step pipelines =
     Inl (Exception LOGICAL_ERROR ''JoinStep expect two input steps'')"
  by (simp add: updatePipeline_def)

lemma updatePipeline_Inr_size:
  "updatePipeline step pipelines = Inr p \<Longrightarrow> length pipelines = 2"
  by (cases "length pipelines = 2") (simp_all add: updatePipeline_def)

text \<open>
  With more than one bucket, \<^verbatim>\<open>shuffle_optimize_buckets - 1\<close> does not wrap, so the unsigned
  comparison of the source is the comparison of the numbers.
\<close>

lemma shuffle_max_check_unat:
  fixes buckets mx :: size_t
  assumes "1 < buckets"
  shows "(mx < buckets - 1) = (unat mx + 1 < unat buckets)"
proof -
  from assms have "buckets \<noteq> 0" by auto
  then have "unat (buckets - 1) = unat buckets - 1"
    by (rule unat_minus_one)
  moreover from assms have "0 < unat buckets"
    by (simp add: word_less_nat_alt)
  ultimately show ?thesis
    by (auto simp add: word_less_nat_alt)
qed

text \<open>
  C9. \<^verbatim>\<open>JoinStep::updatePipeline\<close> throws \<^verbatim>\<open>LOGICAL_ERROR\<close> with the message
  "JoinStep expect two input steps" for every list of input pipelines whose size is not 2,
  and it returns a joined pipeline only for a list of exactly two; for such a list it
  never throws that exception, and what it builds is built from the two pipelines given,
  left first.
\<close>

theorem updatePipeline_expects_two_inputs:
  "(length pipelines \<noteq> 2 \<longrightarrow>
      updatePipeline step pipelines =
        Inl (Exception LOGICAL_ERROR ''JoinStep expect two input steps''))
   \<and> ((\<exists>p. updatePipeline step pipelines = Inr p) \<longrightarrow> length pipelines = 2)
   \<and> (length pipelines = 2 \<longrightarrow>
        updatePipeline step pipelines \<noteq>
          Inl (Exception LOGICAL_ERROR ''JoinStep expect two input steps'')
        \<and> (pipelineType (join step) \<noteq> YShaped \<longrightarrow>
             updatePipeline step pipelines =
               Inr (joinPipelinesRightLeft (pipelines ! 0) (pipelines ! 1)
                      (join step) (output_stream_header step) (max_block_size step)
                      (max_streams step) (keep_left_read_in_order step)))
        \<and> (pipelineType (join step) = YShaped \<and> \<not> 1 < shuffle_optimize_buckets step \<longrightarrow>
             updatePipeline step pipelines =
               Inr (resize
                      (joinPipelinesYShaped (pipelines ! 0) (pipelines ! 1)
                         (join step) (output_stream_header step) (max_block_size step))
                      (max_streams step))))"
proof (intro conjI impI)
  assume "length pipelines \<noteq> 2"
  then show "updatePipeline step pipelines =
      Inl (Exception LOGICAL_ERROR ''JoinStep expect two input steps'')"
    by (rule updatePipeline_wrong_size)
next
  assume "\<exists>p. updatePipeline step pipelines = Inr p"
  then show "length pipelines = 2"
    by (auto dest: updatePipeline_Inr_size)
next
  assume "length pipelines = 2"
  then show "updatePipeline step pipelines \<noteq>
      Inl (Exception LOGICAL_ERROR ''JoinStep expect two input steps'')"
    by (simp add: updatePipeline_def)
next
  assume "length pipelines = 2" and "pipelineType (join step) \<noteq> YShaped"
  then show "updatePipeline step pipelines =
      Inr (joinPipelinesRightLeft (pipelines ! 0) (pipelines ! 1)
             (join step) (output_stream_header step) (max_block_size step)
             (max_streams step) (keep_left_read_in_order step))"
    by (simp add: updatePipeline_def)
next
  assume "length pipelines = 2"
    and "pipelineType (join step) = YShaped \<and> \<not> 1 < shuffle_optimize_buckets step"
  then show "updatePipeline step pipelines =
      Inr (resize
             (joinPipelinesYShaped (pipelines ! 0) (pipelines ! 1)
                (join step) (output_stream_header step) (max_block_size step))
             (max_streams step))"
    by (simp add: updatePipeline_def)
qed

theorem updatePipeline_expects_two_inputs_witness:
  "updatePipeline (shuffle_step 4 3) [7 :: nat] =
     Inl (Exception LOGICAL_ERROR ''JoinStep expect two input steps'')
   \<and> updatePipeline (shuffle_step 4 3) [7 :: nat, 8, 9] =
     Inl (Exception LOGICAL_ERROR ''JoinStep expect two input steps'')
   \<and> (\<exists>p. updatePipeline (shuffle_step 4 3) [7 :: nat, 8] = Inr p)
   \<and> length [7 :: nat, 8] = 2
   \<and> updatePipeline (shuffle_step 1 0) [7 :: nat, 8] =
     Inr (resize (joinPipelinesYShaped 7 8 yshaped_join () 65536) 8)"
proof -
  have one: "length [7 :: nat] \<noteq> 2" and three: "length [7 :: nat, 8, 9] \<noteq> 2"
    by simp_all
  have built: "\<exists>p. updatePipeline (shuffle_step 4 3) [7 :: nat, 8] = Inr p"
    by (simp add: updatePipeline_def shuffle_step_def yshaped_join_def)
  have plain: "length [7 :: nat, 8] = 2
      \<and> pipelineType (join (shuffle_step 1 0)) = YShaped
      \<and> \<not> 1 < shuffle_optimize_buckets (shuffle_step 1 0)"
    by (simp add: shuffle_step_def yshaped_join_def)
  from one updatePipeline_expects_two_inputs
         [where pipelines = "[7 :: nat]" and step = "shuffle_step 4 3"]
  have a: "updatePipeline (shuffle_step 4 3) [7 :: nat] =
      Inl (Exception LOGICAL_ERROR ''JoinStep expect two input steps'')"
    by blast
  from three updatePipeline_expects_two_inputs
         [where pipelines = "[7 :: nat, 8, 9]" and step = "shuffle_step 4 3"]
  have b: "updatePipeline (shuffle_step 4 3) [7 :: nat, 8, 9] =
      Inl (Exception LOGICAL_ERROR ''JoinStep expect two input steps'')"
    by blast
  from built updatePipeline_expects_two_inputs
         [where pipelines = "[7 :: nat, 8]" and step = "shuffle_step 4 3"]
  have c: "length [7 :: nat, 8] = 2"
    by blast
  from plain updatePipeline_expects_two_inputs
         [where pipelines = "[7 :: nat, 8]" and step = "shuffle_step 1 0"]
  have "updatePipeline (shuffle_step 1 0) [7 :: nat, 8] =
      Inr (resize
             (joinPipelinesYShaped ([7 :: nat, 8] ! 0) ([7 :: nat, 8] ! 1)
                (join (shuffle_step 1 0)) (output_stream_header (shuffle_step 1 0))
                (max_block_size (shuffle_step 1 0)))
             (max_streams (shuffle_step 1 0)))"
    by blast
  then have d: "updatePipeline (shuffle_step 1 0) [7 :: nat, 8] =
      Inr (resize (joinPipelinesYShaped 7 8 yshaped_join () 65536) 8)"
    by (simp add: shuffle_step_def)
  from a b built c d show ?thesis
    by blast
qed

text \<open>
  C10. When the join's pipeline type is \<^verbatim>\<open>YShaped\<close> and \<^verbatim>\<open>shuffle_optimize_buckets\<close> is
  greater than 1: if \<^verbatim>\<open>shuffle_optimize_max < shuffle_optimize_buckets - 1\<close> then
  \<^verbatim>\<open>updatePipeline\<close> throws \<^verbatim>\<open>LOGICAL_ERROR\<close> (for two input pipelines with the message
  "Max key value must be at least number of shuffle buckets - 1", otherwise with the
  message of the size check); a pipeline built by \<^verbatim>\<open>joinPipelinesYShapedWithShuffle\<close> is
  returned only if \<^verbatim>\<open>shuffle_optimize_max\<close> is at least \<^verbatim>\<open>shuffle_optimize_buckets - 1\<close>, and
  it is returned, resized twice to \<^verbatim>\<open>max_streams\<close>, whenever that holds and two pipelines
  are given. The subtraction does not wrap: the test is \<open>max + 1 < buckets\<close> on the numbers.
\<close>

theorem updatePipeline_shuffle_max_check:
  "pipelineType (join step) = YShaped \<and> 1 < shuffle_optimize_buckets step \<longrightarrow>
     (shuffle_optimize_max step < shuffle_optimize_buckets step - 1 \<longrightarrow>
        (\<exists>msg. updatePipeline step pipelines = Inl (Exception LOGICAL_ERROR msg))
        \<and> (length pipelines = 2 \<longrightarrow>
             updatePipeline step pipelines =
               Inl (Exception LOGICAL_ERROR
                      ''Max key value must be at least number of shuffle buckets - 1'')))
     \<and> ((\<exists>p. updatePipeline step pipelines = Inr p \<and> built_by_shuffle p) \<longrightarrow>
          shuffle_optimize_buckets step - 1 \<le> shuffle_optimize_max step)
     \<and> (shuffle_optimize_buckets step - 1 \<le> shuffle_optimize_max step
          \<and> length pipelines = 2 \<longrightarrow>
          updatePipeline step pipelines =
            Inr (resize
                   (resize
                      (joinPipelinesYShapedWithShuffle (pipelines ! 0) (pipelines ! 1)
                         (join step) (output_stream_header step) (max_block_size step))
                      (max_streams step))
                   (max_streams step)))
     \<and> (shuffle_optimize_max step < shuffle_optimize_buckets step - 1) =
         (unat (shuffle_optimize_max step) + 1 < unat (shuffle_optimize_buckets step))"
proof (intro impI)
  assume pre: "pipelineType (join step) = YShaped \<and> 1 < shuffle_optimize_buckets step"
  have throws: "\<exists>msg. updatePipeline step pipelines = Inl (Exception LOGICAL_ERROR msg)"
    if "shuffle_optimize_max step < shuffle_optimize_buckets step - 1"
    using pre that by (simp add: updatePipeline_def)
  have message: "updatePipeline step pipelines =
      Inl (Exception LOGICAL_ERROR
             ''Max key value must be at least number of shuffle buckets - 1'')"
    if "shuffle_optimize_max step < shuffle_optimize_buckets step - 1"
      and "length pipelines = 2"
    using pre that by (simp add: updatePipeline_def)
  have only_if: "shuffle_optimize_buckets step - 1 \<le> shuffle_optimize_max step"
    if "\<exists>p. updatePipeline step pipelines = Inr p \<and> built_by_shuffle p"
  proof (rule ccontr)
    assume "\<not> shuffle_optimize_buckets step - 1 \<le> shuffle_optimize_max step"
    then have "shuffle_optimize_max step < shuffle_optimize_buckets step - 1"
      by simp
    from throws [OF this] that show False
      by auto
  qed
  have builds: "updatePipeline step pipelines =
      Inr (resize
             (resize
                (joinPipelinesYShapedWithShuffle (pipelines ! 0) (pipelines ! 1)
                   (join step) (output_stream_header step) (max_block_size step))
                (max_streams step))
             (max_streams step))"
    if "shuffle_optimize_buckets step - 1 \<le> shuffle_optimize_max step \<and> length pipelines = 2"
    using pre that by (simp add: updatePipeline_def not_less [symmetric])
  have numbers: "(shuffle_optimize_max step < shuffle_optimize_buckets step - 1) =
      (unat (shuffle_optimize_max step) + 1 < unat (shuffle_optimize_buckets step))"
    using pre by (simp add: shuffle_max_check_unat)
  from throws message only_if builds numbers
  show "(shuffle_optimize_max step < shuffle_optimize_buckets step - 1 \<longrightarrow>
        (\<exists>msg. updatePipeline step pipelines = Inl (Exception LOGICAL_ERROR msg))
        \<and> (length pipelines = 2 \<longrightarrow>
             updatePipeline step pipelines =
               Inl (Exception LOGICAL_ERROR
                      ''Max key value must be at least number of shuffle buckets - 1'')))
     \<and> ((\<exists>p. updatePipeline step pipelines = Inr p \<and> built_by_shuffle p) \<longrightarrow>
          shuffle_optimize_buckets step - 1 \<le> shuffle_optimize_max step)
     \<and> (shuffle_optimize_buckets step - 1 \<le> shuffle_optimize_max step
          \<and> length pipelines = 2 \<longrightarrow>
          updatePipeline step pipelines =
            Inr (resize
                   (resize
                      (joinPipelinesYShapedWithShuffle (pipelines ! 0) (pipelines ! 1)
                         (join step) (output_stream_header step) (max_block_size step))
                      (max_streams step))
                   (max_streams step)))
     \<and> (shuffle_optimize_max step < shuffle_optimize_buckets step - 1) =
         (unat (shuffle_optimize_max step) + 1 < unat (shuffle_optimize_buckets step))"
    by blast
qed

theorem updatePipeline_shuffle_max_check_witness:
  "updatePipeline (shuffle_step 4 2) [7 :: nat, 8] =
     Inl (Exception LOGICAL_ERROR
            ''Max key value must be at least number of shuffle buckets - 1'')
   \<and> updatePipeline (shuffle_step 4 3) [7 :: nat, 8] =
     Inr (resize (resize (joinPipelinesYShapedWithShuffle 7 8 yshaped_join () 65536) 8) 8)
   \<and> (4 :: size_t) - 1 \<le> 3"
proof -
  have pre2: "pipelineType (join (shuffle_step 4 2)) = YShaped
      \<and> 1 < shuffle_optimize_buckets (shuffle_step 4 2)"
    and pre3: "pipelineType (join (shuffle_step 4 3)) = YShaped
      \<and> 1 < shuffle_optimize_buckets (shuffle_step 4 3)"
    by (simp_all add: shuffle_step_def yshaped_join_def)
  have small: "shuffle_optimize_max (shuffle_step 4 2)
      < shuffle_optimize_buckets (shuffle_step 4 2) - 1"
    and two: "length [7 :: nat, 8] = 2"
    and enough: "shuffle_optimize_buckets (shuffle_step 4 3) - 1
      \<le> shuffle_optimize_max (shuffle_step 4 3)"
    by (simp_all add: shuffle_step_def)
  from pre2 small two updatePipeline_shuffle_max_check
         [where step = "shuffle_step 4 2" and pipelines = "[7 :: nat, 8]"]
  have a: "updatePipeline (shuffle_step 4 2) [7 :: nat, 8] =
      Inl (Exception LOGICAL_ERROR
             ''Max key value must be at least number of shuffle buckets - 1'')"
    by blast
  from pre3 enough two updatePipeline_shuffle_max_check
         [where step = "shuffle_step 4 3" and pipelines = "[7 :: nat, 8]"]
  have "updatePipeline (shuffle_step 4 3) [7 :: nat, 8] =
      Inr (resize
             (resize
                (joinPipelinesYShapedWithShuffle ([7 :: nat, 8] ! 0) ([7 :: nat, 8] ! 1)
                   (join (shuffle_step 4 3)) (output_stream_header (shuffle_step 4 3))
                   (max_block_size (shuffle_step 4 3)))
                (max_streams (shuffle_step 4 3)))
             (max_streams (shuffle_step 4 3)))"
    by blast
  then have b: "updatePipeline (shuffle_step 4 3) [7 :: nat, 8] =
      Inr (resize (resize (joinPipelinesYShapedWithShuffle 7 8 yshaped_join () 65536) 8) 8)"
    by (simp add: shuffle_step_def)
  have "built_by_shuffle
      (resize (resize (joinPipelinesYShapedWithShuffle (7 :: nat) (8 :: nat) yshaped_join () 65536) 8) 8)"
    by simp
  with b pre3 updatePipeline_shuffle_max_check
         [where step = "shuffle_step 4 3" and pipelines = "[7 :: nat, 8]"]
  have "shuffle_optimize_buckets (shuffle_step 4 3) - 1
      \<le> shuffle_optimize_max (shuffle_step 4 3)"
    by blast
  then have c: "(4 :: size_t) - 1 \<le> 3"
    by (simp add: shuffle_step_def)
  from a b c show ?thesis
    by blast
qed


section \<open>Properties of \<^verbatim>\<open>QueryState\<close>\<close>

subsection \<open>\<^verbatim>\<open>reset\<close>\<close>

lemma reset_eq_ctor: "reset env this = QueryState_ctor env"
  by (simp add: reset_def)

lemma reset_fields:
  "progress (reset env this) = Progress_zero"
  "cancellation_status (reset env this) = NOT_CANCELLED"
  "skipping_data (reset env this) = False"
  "is_empty (reset env this) = True"
  by (simp_all add: reset_def QueryState_ctor_def)

text \<open>
  C2. For every query state, whatever its fields hold, \<^verbatim>\<open>reset()\<close> gives the
  default-constructed state \<^verbatim>\<open>QueryState()\<close>: every member has its default member
  initialiser or the value of its type's default constructor. So the result does not
  depend on the state \<^verbatim>\<open>reset()\<close> is called on, and calling it twice gives what calling
  it once gives; \<open>reset\<close> is a total function. (What the default constructors of
  \<^verbatim>\<open>Block\<close>, \<^verbatim>\<open>BlockIO\<close> and \<^verbatim>\<open>Stopwatch\<close> give is the parameter \<open>env\<close>.)
\<close>

theorem reset_yields_default_constructed:
  "reset env this = QueryState_ctor env
   \<and> reset env (reset env' this) = reset env this
   \<and> reset env this = reset env other
   \<and> query_id (reset env this) = ''''
   \<and> stage (reset env this) = Complete
   \<and> compression (reset env this) = Disable
   \<and> logs_queue (reset env this) = None
   \<and> logs_block_out (reset env this) = None
   \<and> profile_queue (reset env this) = None
   \<and> profile_events_block_out (reset env this) = None
   \<and> maybe_compressed_in (reset env this) = None
   \<and> block_in (reset env this) = None
   \<and> maybe_compressed_out (reset env this) = None
   \<and> block_out (reset env this) = None
   \<and> block_for_insert (reset env this) = Block_default env
   \<and> query (reset env this) = ''''
   \<and> parsed_query (reset env this) = None
   \<and> io (reset env this) = BlockIO_default env
   \<and> cancellation_status (reset env this) = NOT_CANCELLED
   \<and> is_connection_closed (reset env this) = False
   \<and> is_empty (reset env this) = True
   \<and> sent_all_data (reset env this) = False
   \<and> need_receive_data_for_insert (reset env this) = False
   \<and> read_all_data (reset env this) = False
   \<and> part_uuids_to_ignore (reset env this) = None
   \<and> need_receive_data_for_input (reset env this) = False
   \<and> block_for_input (reset env this) = Block_default env
   \<and> input_header (reset env this) = Block_default env
   \<and> skipping_data (reset env this) = False
   \<and> progress (reset env this) = Progress_zero
   \<and> watch (reset env this) = Stopwatch_default env
   \<and> prev_elapsed_ns (reset env this) = 0
   \<and> timeout_setter (reset env this) = None
   \<and> QueryState_empty (reset env this)"
proof -
  have ctor: "reset env s = QueryState_ctor env" for s :: "('a, 'b, 'c) QueryState"
    by (rule reset_eq_ctor)
  have twice: "reset env (reset env' this) = reset env this"
    by (simp only: ctor)
  have same: "reset env this = reset env other"
    by (simp only: ctor)
  have members:
    "query_id (QueryState_ctor env) = ''''
     \<and> stage (QueryState_ctor env) = Complete
     \<and> compression (QueryState_ctor env) = Disable
     \<and> logs_queue (QueryState_ctor env) = None
     \<and> logs_block_out (QueryState_ctor env) = None
     \<and> profile_queue (QueryState_ctor env) = None
     \<and> profile_events_block_out (QueryState_ctor env) = None
     \<and> maybe_compressed_in (QueryState_ctor env) = None
     \<and> block_in (QueryState_ctor env) = None
     \<and> maybe_compressed_out (QueryState_ctor env) = None
     \<and> block_out (QueryState_ctor env) = None
     \<and> block_for_insert (QueryState_ctor env) = Block_default env
     \<and> query (QueryState_ctor env) = ''''
     \<and> parsed_query (QueryState_ctor env) = None
     \<and> io (QueryState_ctor env) = BlockIO_default env
     \<and> cancellation_status (QueryState_ctor env) = NOT_CANCELLED
     \<and> is_connection_closed (QueryState_ctor env) = False
     \<and> is_empty (QueryState_ctor env) = True
     \<and> sent_all_data (QueryState_ctor env) = False
     \<and> need_receive_data_for_insert (QueryState_ctor env) = False
     \<and> read_all_data (QueryState_ctor env) = False
     \<and> part_uuids_to_ignore (QueryState_ctor env) = None
     \<and> need_receive_data_for_input (QueryState_ctor env) = False
     \<and> block_for_input (QueryState_ctor env) = Block_default env
     \<and> input_header (QueryState_ctor env) = Block_default env
     \<and> skipping_data (QueryState_ctor env) = False
     \<and> progress (QueryState_ctor env) = Progress_zero
     \<and> watch (QueryState_ctor env) = Stopwatch_default env
     \<and> prev_elapsed_ns (QueryState_ctor env) = 0
     \<and> timeout_setter (QueryState_ctor env) = None
     \<and> QueryState_empty (QueryState_ctor env)"
    by (simp add: QueryState_ctor_def QueryState_empty_def)
  from twice same members show ?thesis
    by (simp only: ctor simp_thms)
qed

theorem reset_yields_default_constructed_witness:
  "reset unit_members mid_insert = QueryState_ctor unit_members
   \<and> reset unit_members (reset unit_members mid_insert) = reset unit_members mid_insert
   \<and> mid_insert \<noteq> QueryState_ctor unit_members
   \<and> cancellation_status mid_insert = READ_CANCELLED
   \<and> cancellation_status (reset unit_members mid_insert) = NOT_CANCELLED
   \<and> skipping_data mid_insert
   \<and> skipping_data (reset unit_members mid_insert) = False"
proof -
  have "query_id mid_insert \<noteq> query_id (QueryState_ctor unit_members)"
    by (simp add: mid_insert_def QueryState_ctor_def)
  then have differs: "mid_insert \<noteq> QueryState_ctor unit_members"
    by auto
  have before: "cancellation_status mid_insert = READ_CANCELLED \<and> skipping_data mid_insert"
    by (simp add: mid_insert_def)
  note r = reset_yields_default_constructed
      [where env = unit_members and env' = unit_members and this = mid_insert
         and other = mid_insert]
  from r have a: "reset unit_members mid_insert = QueryState_ctor unit_members"
    by blast
  from r have b: "reset unit_members (reset unit_members mid_insert)
      = reset unit_members mid_insert"
    by blast
  from r have c: "cancellation_status (reset unit_members mid_insert) = NOT_CANCELLED"
    by blast
  from r have d: "skipping_data (reset unit_members mid_insert) = False"
    by blast
  from a b differs before c d show ?thesis
    by blast
qed


subsection \<open>The cancellation status\<close>

lemma decreased_value:
  "CancellationStatus_value (decreased c) \<le> CancellationStatus_value c"
  by (cases c) simp_all

lemma CancellationStatus_value_eq:
  "(CancellationStatus_value c = 0) = (c = FULLY_CANCELLED)"
  "(CancellationStatus_value c = 2) = (c = NOT_CANCELLED)"
  "CancellationStatus_value c \<le> 2"
  by (cases c; simp)+

lemma handle_event_status:
  "cancellation_status (snd (handle_event e s)) = cancellation_status s
   \<or> cancellation_status (snd (handle_event e s)) = decreased (cancellation_status s)"
  by (cases e)
    (simp_all add: decreaseCancellationStatus_def updateProgress_def sendProgress_def)

lemma handle_event_value:
  "CancellationStatus_value (cancellation_status (snd (handle_event e s)))
   \<le> CancellationStatus_value (cancellation_status s)"
  using handle_event_status [of e s] decreased_value [of "cancellation_status s"]
  by auto

lemma run_query_value:
  "CancellationStatus_value (cancellation_status (snd (run_query evs s)))
   \<le> CancellationStatus_value (cancellation_status s)"
proof (induction evs arbitrary: s)
  case Nil
  then show ?case by simp
next
  case (Cons e es)
  have "CancellationStatus_value
          (cancellation_status (snd (run_query es (snd (handle_event e s)))))
      \<le> CancellationStatus_value (cancellation_status (snd (handle_event e s)))"
    by (rule Cons.IH)
  also have "\<dots> \<le> CancellationStatus_value (cancellation_status s)"
    by (rule handle_event_value)
  finally show ?case
    by (simp add: split_beta)
qed

text \<open>
  C1. While one query runs, the cancellation status only moves down the enumeration
  (up in strictness): after any sequence of events its value is at most what it was; once
  it is \<^verbatim>\<open>READ_CANCELLED\<close> or \<^verbatim>\<open>FULLY_CANCELLED\<close> it is never \<^verbatim>\<open>NOT_CANCELLED\<close> again; once
  it is \<^verbatim>\<open>FULLY_CANCELLED\<close> it stays so; an event that changes it takes it from
  \<^verbatim>\<open>NOT_CANCELLED\<close> to \<^verbatim>\<open>READ_CANCELLED\<close> or from \<^verbatim>\<open>READ_CANCELLED\<close> to \<^verbatim>\<open>FULLY_CANCELLED\<close>; and
  \<^verbatim>\<open>reset()\<close> is what brings it back to \<^verbatim>\<open>NOT_CANCELLED\<close>.
\<close>

theorem cancellation_status_monotone:
  "CancellationStatus_value (cancellation_status (snd (run_query evs state)))
     \<le> CancellationStatus_value (cancellation_status state)
   \<and> (cancellation_status state \<noteq> NOT_CANCELLED \<longrightarrow>
        cancellation_status (snd (run_query evs state)) \<noteq> NOT_CANCELLED)
   \<and> (cancellation_status state = FULLY_CANCELLED \<longrightarrow>
        cancellation_status (snd (run_query evs state)) = FULLY_CANCELLED)
   \<and> (cancellation_status (snd (handle_event e state)) \<noteq> cancellation_status state \<longrightarrow>
        cancellation_status state = NOT_CANCELLED
          \<and> cancellation_status (snd (handle_event e state)) = READ_CANCELLED
        \<or> cancellation_status state = READ_CANCELLED
          \<and> cancellation_status (snd (handle_event e state)) = FULLY_CANCELLED)
   \<and> cancellation_status (reset env state) = NOT_CANCELLED"
proof (intro conjI impI)
  let ?v = "\<lambda>s. CancellationStatus_value (cancellation_status s)"
  show le: "?v (snd (run_query evs state)) \<le> ?v state"
    by (rule run_query_value)
  {
    assume "cancellation_status state \<noteq> NOT_CANCELLED"
    then have "?v state \<noteq> 2"
      by (simp add: CancellationStatus_value_eq)
    with le CancellationStatus_value_eq(3) [of "cancellation_status state"]
    have "?v (snd (run_query evs state)) \<noteq> 2"
      by linarith
    then show "cancellation_status (snd (run_query evs state)) \<noteq> NOT_CANCELLED"
      by (simp add: CancellationStatus_value_eq)
  }
  {
    assume "cancellation_status state = FULLY_CANCELLED"
    then have "?v state = 0"
      by simp
    with le have "?v (snd (run_query evs state)) = 0"
      by simp
    then show "cancellation_status (snd (run_query evs state)) = FULLY_CANCELLED"
      by (simp add: CancellationStatus_value_eq)
  }
  {
    assume changed: "cancellation_status (snd (handle_event e state)) \<noteq> cancellation_status state"
    with handle_event_status [of e state]
    have step: "cancellation_status (snd (handle_event e state))
        = decreased (cancellation_status state)"
      by blast
    show "cancellation_status state = NOT_CANCELLED
          \<and> cancellation_status (snd (handle_event e state)) = READ_CANCELLED
        \<or> cancellation_status state = READ_CANCELLED
          \<and> cancellation_status (snd (handle_event e state)) = FULLY_CANCELLED"
    proof (cases "cancellation_status state")
      case FULLY_CANCELLED
      with step changed show ?thesis by simp
    next
      case READ_CANCELLED
      with step show ?thesis by simp
    next
      case NOT_CANCELLED
      with step show ?thesis by simp
    qed
  }
  show "cancellation_status (reset env state) = NOT_CANCELLED"
    by (rule reset_fields)
qed

theorem cancellation_status_monotone_witness:
  "cancellation_status mid_insert = READ_CANCELLED
   \<and> cancellation_status
        (snd (run_query [ProgressFlush, ProgressCallback Progress_zero] mid_insert))
       \<noteq> NOT_CANCELLED
   \<and> cancellation_status
        (snd (run_query [CancelRequested ''second cancel'']
                (mid_insert\<lparr>cancellation_status := FULLY_CANCELLED\<rparr>)))
       = FULLY_CANCELLED
   \<and> cancellation_status (snd (handle_event (CancelRequested ''second cancel'') mid_insert))
       = FULLY_CANCELLED
   \<and> cancellation_status
        (snd (handle_event (CancelRequested ''first cancel'') (QueryState_ctor unit_members)))
       = READ_CANCELLED"
proof -
  have read: "cancellation_status mid_insert = READ_CANCELLED"
    by (simp add: mid_insert_def)
  then have not_fresh: "cancellation_status mid_insert \<noteq> NOT_CANCELLED"
    by simp
  have fully: "cancellation_status (mid_insert\<lparr>cancellation_status := FULLY_CANCELLED\<rparr>)
      = FULLY_CANCELLED"
    by simp
  have changed: "cancellation_status
        (snd (handle_event (CancelRequested ''second cancel'') mid_insert))
      \<noteq> cancellation_status mid_insert"
    by (simp add: decreaseCancellationStatus_def mid_insert_def)
  have changed': "cancellation_status
        (snd (handle_event (CancelRequested ''first cancel'') (QueryState_ctor unit_members)))
      \<noteq> cancellation_status (QueryState_ctor unit_members)"
    and fresh: "cancellation_status (QueryState_ctor unit_members) = NOT_CANCELLED"
    by (simp_all add: decreaseCancellationStatus_def QueryState_ctor_def)
  from not_fresh cancellation_status_monotone
      [where state = mid_insert and evs = "[ProgressFlush, ProgressCallback Progress_zero]"]
  have a: "cancellation_status
        (snd (run_query [ProgressFlush, ProgressCallback Progress_zero] mid_insert))
      \<noteq> NOT_CANCELLED"
    by blast
  from fully cancellation_status_monotone
      [where state = "mid_insert\<lparr>cancellation_status := FULLY_CANCELLED\<rparr>"
         and evs = "[CancelRequested ''second cancel'']"]
  have b: "cancellation_status
        (snd (run_query [CancelRequested ''second cancel'']
                (mid_insert\<lparr>cancellation_status := FULLY_CANCELLED\<rparr>)))
      = FULLY_CANCELLED"
    by blast
  from changed read cancellation_status_monotone
      [where state = mid_insert and e = "CancelRequested ''second cancel''"]
  have c: "cancellation_status
        (snd (handle_event (CancelRequested ''second cancel'') mid_insert))
      = FULLY_CANCELLED"
    by auto
  from changed' fresh cancellation_status_monotone
      [where state = "QueryState_ctor unit_members"
         and e = "CancelRequested ''first cancel''"]
  have d: "cancellation_status
        (snd (handle_event (CancelRequested ''first cancel'') (QueryState_ctor unit_members)))
      = READ_CANCELLED"
    by auto
  from read a b c d show ?thesis
    by blast
qed

end
